theory Spec2Isabelle
  imports Main "HOL-Library.Word"
begin

section \<open>Kitura-net: the curl helper shims (CurlHelpers.c)\<close>

text \<open>
  CurlHelpers.c is a set of fixed-arity C functions around the variadic
  \<^verbatim>\<open>curl_easy_setopt\<close> of the transfer engine, so that Swift can call it. The file
  exists twice in the repository (CurlHelpers.c and Sources/KituraNet/CurlHelpers.c) with
  the same function bodies; one embedding covers both.
\<close>

subsection \<open>C types\<close>

text \<open>\<^verbatim>\<open>int\<close> is 32 bits, \<open>long\<close> and pointers are 64 bits (LP64, the platforms Kitura builds on).\<close>

type_synonym c_int = "32 word"
type_synonym c_long = "64 word"
type_synonym c_ptr = "64 word"

definition NULL :: c_ptr where
  "NULL = 0"

text \<open>CurlHelpers.h: \<^verbatim>\<open>#define CURL_TRUE 1\<close> and \<^verbatim>\<open>#define CURL_FALSE 0\<close>.\<close>

definition CURL_TRUE :: c_int where
  "CURL_TRUE = 1"

definition CURL_FALSE :: c_int where
  "CURL_FALSE = 0"

text \<open>
  The engine's enumerations (curl/curl.h). Of \<^verbatim>\<open>CURLoption\<close> the six options the
  helpers name are constructors of their own, any other option is given by its number.
  Of \<^verbatim>\<open>CURLcode\<close> the helpers only ever test for \<^verbatim>\<open>CURLE_OK\<close>; every other
  code is a failure, given by its number.
\<close>

datatype CURLoption =
    CURLOPT_HTTPHEADER
  | CURLOPT_READDATA
  | CURLOPT_READFUNCTION
  | CURLOPT_HEADER
  | CURLOPT_WRITEDATA
  | CURLOPT_WRITEFUNCTION
  | CURLOPT_other nat

datatype CURLcode = CURLE_OK | CURLE_failed nat

text \<open>
  The third, variadic argument of \<^verbatim>\<open>curl_easy_setopt\<close>, as the helpers pass it:
  a \<open>long\<close>, an \<open>int\<close> (the literal \<open>1\<close> of the write helper), a data pointer, a
  function pointer, a C string, or a \<^verbatim>\<open>struct curl_slist *\<close>. A \<^verbatim>\<open>curl_slist\<close>
  is a singly linked list of C strings that the helpers neither read nor change, so the
  pointer to it is embedded as the list of its lines (the null pointer is the empty list).
\<close>

datatype curl_arg =
    ArgLong c_long
  | ArgInt c_int
  | ArgPtr c_ptr
  | ArgFunc c_ptr
  | ArgString string
  | ArgSlist "string list"

subsection \<open>The engine as a parameter\<close>

text \<open>
  \<^verbatim>\<open>curl_easy_setopt(curl, option, arg)\<close> belongs to the external engine. The helpers are
  embedded over any engine: a function from the state behind the session handle, the
  option and the argument to the result code and the state after the call.
\<close>

type_synonym 'h engine = "'h \<Rightarrow> CURLoption \<Rightarrow> curl_arg \<Rightarrow> CURLcode \<times> 'h"

subsection \<open>The helpers\<close>

text \<open>
  \<^verbatim>\<open>return curl_easy_setopt(curl, option, yesNo == CURL_TRUE ? 1L : 0L);\<close>
\<close>

definition curlHelperSetOptBool :: "'h engine \<Rightarrow> 'h \<Rightarrow> CURLoption \<Rightarrow> c_int \<Rightarrow> CURLcode \<times> 'h" where
  "curlHelperSetOptBool easy_setopt curl option yesNo =
     easy_setopt curl option (ArgLong (if yesNo = CURL_TRUE then 1 else 0))"

text \<open>
  \<^verbatim>\<open>return curl_easy_setopt(curl, CURLOPT_HTTPHEADER, headers);\<close>
\<close>

definition curlHelperSetOptHeaders :: "'h engine \<Rightarrow> 'h \<Rightarrow> string list \<Rightarrow> CURLcode \<times> 'h" where
  "curlHelperSetOptHeaders easy_setopt curl headers =
     easy_setopt curl CURLOPT_HTTPHEADER (ArgSlist headers)"

text \<open>
  \<^verbatim>\<open>return curl_easy_setopt(curl, option, data);\<close> with \<open>long data\<close>, and the same with
  \<open>char *data\<close>.
\<close>

definition curlHelperSetOptInt :: "'h engine \<Rightarrow> 'h \<Rightarrow> CURLoption \<Rightarrow> c_long \<Rightarrow> CURLcode \<times> 'h" where
  "curlHelperSetOptInt easy_setopt curl option data = easy_setopt curl option (ArgLong data)"

definition curlHelperSetOptString :: "'h engine \<Rightarrow> 'h \<Rightarrow> CURLoption \<Rightarrow> string \<Rightarrow> CURLcode \<times> 'h" where
  "curlHelperSetOptString easy_setopt curl option data = easy_setopt curl option (ArgString data)"

text \<open>
  \<^verbatim>\<open>
  CURLcode rc = curl_easy_setopt(curl, CURLOPT_READDATA, userData);
  if  (rc == CURLE_OK) {
      rc = curl_easy_setopt(curl, CURLOPT_READFUNCTION, read_cb);
  }
  return rc;
  \<close>
\<close>

definition curlHelperSetOptReadFunc :: "'h engine \<Rightarrow> 'h \<Rightarrow> c_ptr \<Rightarrow> c_ptr \<Rightarrow> CURLcode \<times> 'h" where
  "curlHelperSetOptReadFunc easy_setopt curl userData read_cb =
     (case easy_setopt curl CURLOPT_READDATA (ArgPtr userData) of
        (rc, curl1) \<Rightarrow>
          if rc = CURLE_OK
          then easy_setopt curl1 CURLOPT_READFUNCTION (ArgFunc read_cb)
          else (rc, curl1))"

text \<open>
  \<^verbatim>\<open>
  CURLcode rc = curl_easy_setopt(curl, CURLOPT_HEADER, 1);
  if  (rc == CURLE_OK)  {
      rc = curl_easy_setopt(curl, CURLOPT_WRITEDATA, userData);
      if  (rc == CURLE_OK) {
          rc = curl_easy_setopt(curl, CURLOPT_WRITEFUNCTION, write_cb);
      }
  }
  return rc;
  \<close>
\<close>

definition curlHelperSetOptWriteFunc :: "'h engine \<Rightarrow> 'h \<Rightarrow> c_ptr \<Rightarrow> c_ptr \<Rightarrow> CURLcode \<times> 'h" where
  "curlHelperSetOptWriteFunc easy_setopt curl userData write_cb =
     (case easy_setopt curl CURLOPT_HEADER (ArgInt 1) of
        (rc, curl1) \<Rightarrow>
          if rc = CURLE_OK
          then (case easy_setopt curl1 CURLOPT_WRITEDATA (ArgPtr userData) of
                  (rc, curl2) \<Rightarrow>
                    if rc = CURLE_OK
                    then easy_setopt curl2 CURLOPT_WRITEFUNCTION (ArgFunc write_cb)
                    else (rc, curl2))
          else (rc, curl1))"

subsection \<open>Observing the calls a helper makes\<close>

text \<open>
  To state what a helper passes to the engine, and in which order, any engine is wrapped
  so that it also appends each call (option, argument, result code) to a log carried
  beside its state.
\<close>

type_synonym call = "CURLoption \<times> curl_arg \<times> CURLcode"

definition recording :: "'h engine \<Rightarrow> ('h \<times> call list) engine" where
  "recording easy_setopt = (\<lambda>(curl, log) option arg.
     case easy_setopt curl option arg of
       (rc, curl') \<Rightarrow> (rc, (curl', log @ [(option, arg, rc)])))"

text \<open>The calls logged by a run that started from the empty log, and their arguments.\<close>

definition calls_made :: "CURLcode \<times> ('h \<times> call list) \<Rightarrow> call list" where
  "calls_made res = snd (snd res)"

definition args_passed :: "CURLcode \<times> ('h \<times> call list) \<Rightarrow> (CURLoption \<times> curl_arg) list" where
  "args_passed res = map (\<lambda>(option, arg, rc). (option, arg)) (calls_made res)"

subsection \<open>An engine that stores its options\<close>

text \<open>
  Modelled from the spec: the option store of the external transfer engine behind
  \<^verbatim>\<open>curl_easy_setopt\<close>, which is not part of this repository. A session holds at most one
  value per option. The engine decides by itself whether it accepts a value (the
  parameter \<open>verdict\<close>, which may look at the session); an accepted value replaces the
  option's previous one and the call returns \<^verbatim>\<open>CURLE_OK\<close>, a rejected value leaves the
  session as it was and the call returns the failure code.
\<close>

type_synonym session = "CURLoption \<Rightarrow> curl_arg option"

type_synonym verdict = "session \<Rightarrow> CURLoption \<Rightarrow> curl_arg \<Rightarrow> CURLcode"

definition curl_easy_setopt :: "verdict \<Rightarrow> session engine" where
  "curl_easy_setopt verdict curl option arg =
     (let rc = verdict curl option arg
      in if rc = CURLE_OK then (rc, curl(option \<mapsto> arg)) else (rc, curl))"

text \<open>Two engines for concrete runs: one accepts every value, one rejects exactly the
  options of a given list (with \<^verbatim>\<open>CURLE_UNKNOWN_OPTION\<close>, 48).\<close>

definition accept_all :: verdict where
  "accept_all curl option arg = CURLE_OK"

definition reject_options :: "CURLoption list \<Rightarrow> verdict" where
  "reject_options bad curl option arg = (if option \<in> set bad then CURLE_failed 48 else CURLE_OK)"

text \<open>A third engine rejects exactly the argument values of a given list (with
  \<^verbatim>\<open>CURLE_BAD_FUNCTION_ARGUMENT\<close>, 43), whatever the option.\<close>

definition reject_args :: "curl_arg list \<Rightarrow> verdict" where
  "reject_args bad curl option arg = (if arg \<in> set bad then CURLE_failed 43 else CURLE_OK)"

definition new_session :: session where
  "new_session = (\<lambda>option. None)"

section \<open>Properties\<close>

subsection \<open>Shared facts\<close>

lemma SetOptBool_recording:
  "curlHelperSetOptBool (recording e) (h, log) option yesNo =
     (fst (e h option (ArgLong (if yesNo = CURL_TRUE then 1 else 0))),
      snd (e h option (ArgLong (if yesNo = CURL_TRUE then 1 else 0))),
      log @ [(option, ArgLong (if yesNo = CURL_TRUE then 1 else 0),
              fst (e h option (ArgLong (if yesNo = CURL_TRUE then 1 else 0))))])"
  by (simp add: curlHelperSetOptBool_def recording_def split: prod.split)

lemma args_passed_SetOptBool:
  "args_passed (curlHelperSetOptBool (recording e) (h, []) option yesNo) =
     [(option, ArgLong (if yesNo = CURL_TRUE then 1 else 0))]"
  by (simp add: SetOptBool_recording args_passed_def calls_made_def)

lemma SetOptReadFunc_recording:
  assumes "e h CURLOPT_READDATA (ArgPtr ud) = (rc1, h1)"
    and "e h1 CURLOPT_READFUNCTION (ArgFunc cb) = (rc2, h2)"
  shows "curlHelperSetOptReadFunc (recording e) (h, []) ud cb =
     (if rc1 \<noteq> CURLE_OK then (rc1, h1, [(CURLOPT_READDATA, ArgPtr ud, rc1)])
      else (rc2, h2, [(CURLOPT_READDATA, ArgPtr ud, rc1),
                      (CURLOPT_READFUNCTION, ArgFunc cb, rc2)]))"
  using assms by (simp add: curlHelperSetOptReadFunc_def recording_def)

lemma SetOptWriteFunc_recording:
  assumes "e h CURLOPT_HEADER (ArgInt 1) = (rc1, h1)"
    and "e h1 CURLOPT_WRITEDATA (ArgPtr ud) = (rc2, h2)"
    and "e h2 CURLOPT_WRITEFUNCTION (ArgFunc cb) = (rc3, h3)"
  shows "curlHelperSetOptWriteFunc (recording e) (h, []) ud cb =
     (if rc1 \<noteq> CURLE_OK then (rc1, h1, [(CURLOPT_HEADER, ArgInt 1, rc1)])
      else if rc2 \<noteq> CURLE_OK
        then (rc2, h2, [(CURLOPT_HEADER, ArgInt 1, rc1), (CURLOPT_WRITEDATA, ArgPtr ud, rc2)])
      else (rc3, h3, [(CURLOPT_HEADER, ArgInt 1, rc1), (CURLOPT_WRITEDATA, ArgPtr ud, rc2),
                      (CURLOPT_WRITEFUNCTION, ArgFunc cb, rc3)]))"
  using assms by (simp add: curlHelperSetOptWriteFunc_def recording_def)

lemma setopt_accepted:
  "vd s option arg = CURLE_OK \<Longrightarrow>
     curl_easy_setopt vd s option arg = (CURLE_OK, s(option \<mapsto> arg))"
  by (simp add: curl_easy_setopt_def)

lemma setopt_rejected:
  "vd s option arg \<noteq> CURLE_OK \<Longrightarrow> curl_easy_setopt vd s option arg = (vd s option arg, s)"
  by (simp add: curl_easy_setopt_def)

lemma fst_setopt: "fst (curl_easy_setopt vd s option arg) = vd s option arg"
  by (simp add: curl_easy_setopt_def Let_def)

lemma snd_setopt:
  "snd (curl_easy_setopt vd s option arg) =
     (if vd s option arg = CURLE_OK then s(option \<mapsto> arg) else s)"
  by (simp add: curl_easy_setopt_def Let_def)

subsection \<open>set\_flag: curlHelperSetOptBool\<close>

text \<open>
  C1, as amended. The helper does not promote every nonzero input to 1. For every session,
  option and \<open>int\<close> input it makes exactly one engine call on the given option and rejects
  nothing itself; the value it passes is the \<open>long\<close> 1 when the input equals
  \<^verbatim>\<open>CURL_TRUE\<close> (1) and the \<open>long\<close> 0 for every other input; the engine's answer is
  returned as it is.
\<close>

theorem set_flag_compares_with_CURL_TRUE:
  "args_passed (curlHelperSetOptBool (recording e) (h, []) option yesNo) =
     [(option, ArgLong (if yesNo = CURL_TRUE then 1 else 0))]
   \<and> curlHelperSetOptBool e h option yesNo =
       e h option (ArgLong (if yesNo = CURL_TRUE then 1 else 0))"
  by (simp add: args_passed_SetOptBool) (simp add: curlHelperSetOptBool_def)

text \<open>
  C1 as stated fails: the input 2 is nonzero, and on \<^verbatim>\<open>CURLOPT_HEADER\<close> the accepting
  engine is passed 0 for it, not 1.
\<close>

theorem set_flag_nonzero_not_promoted:
  "(2 :: c_int) \<noteq> 0
   \<and> args_passed (curlHelperSetOptBool (recording (curl_easy_setopt accept_all))
        (new_session, []) CURLOPT_HEADER 2) = [(CURLOPT_HEADER, ArgLong 0)]
   \<and> snd (curlHelperSetOptBool (curl_easy_setopt accept_all) new_session CURLOPT_HEADER 2)
        CURLOPT_HEADER = Some (ArgLong 0)
   \<and> ArgLong 0 \<noteq> ArgLong 1"
proof -
  have "args_passed (curlHelperSetOptBool (recording (curl_easy_setopt accept_all))
        (new_session, []) CURLOPT_HEADER 2) = [(CURLOPT_HEADER, ArgLong 0)]"
    by (simp add: args_passed_SetOptBool CURL_TRUE_def)
  moreover have "snd (curlHelperSetOptBool (curl_easy_setopt accept_all) new_session
        CURLOPT_HEADER 2) CURLOPT_HEADER = Some (ArgLong 0)"
    by (simp add: curlHelperSetOptBool_def snd_setopt accept_all_def CURL_TRUE_def)
  ultimately show ?thesis by simp
qed

text \<open>
  C9. For every \<open>int\<close> input the helper passes one of the two values 0 and 1 (as a
  \<open>long\<close>) to the engine, and every input other than \<^verbatim>\<open>CURL_TRUE\<close> is passed as 0.
\<close>

theorem set_flag_passes_canonical:
  "(\<exists>a. args_passed (curlHelperSetOptBool (recording e) (h, []) option yesNo) = [(option, a)]
        \<and> (a = ArgLong 0 \<or> a = ArgLong 1))
   \<and> (yesNo \<noteq> CURL_TRUE \<longrightarrow>
        args_passed (curlHelperSetOptBool (recording e) (h, []) option yesNo) =
          [(option, ArgLong 0)])"
  by (simp add: args_passed_SetOptBool)

theorem set_flag_passes_canonical_witness:
  "(-1 :: c_int) \<noteq> CURL_TRUE
   \<and> args_passed (curlHelperSetOptBool (recording (curl_easy_setopt accept_all))
        (new_session, []) CURLOPT_HEADER (-1)) = [(CURLOPT_HEADER, ArgLong 0)]"
proof -
  have ne: "(-1 :: c_int) \<noteq> CURL_TRUE"
    by (simp add: CURL_TRUE_def)
  with set_flag_passes_canonical
    [of "curl_easy_setopt accept_all" new_session CURLOPT_HEADER "-1"]
  show ?thesis by simp
qed

text \<open>
  C6. On the engine that stores its options: a successful call with \<^verbatim>\<open>CURL_TRUE\<close>
  is one engine call with the value 1, after which the option holds 1; a successful call
  with \<^verbatim>\<open>CURL_FALSE\<close> is one engine call with the value 0, after which the option
  holds 0.
\<close>

theorem set_flag_true_false:
  "(fst (curlHelperSetOptBool (curl_easy_setopt vd) s option CURL_TRUE) = CURLE_OK \<longrightarrow>
      curlHelperSetOptBool (recording (curl_easy_setopt vd)) (s, []) option CURL_TRUE =
        (CURLE_OK, s(option \<mapsto> ArgLong 1), [(option, ArgLong 1, CURLE_OK)]))
   \<and> (fst (curlHelperSetOptBool (curl_easy_setopt vd) s option CURL_FALSE) = CURLE_OK \<longrightarrow>
      curlHelperSetOptBool (recording (curl_easy_setopt vd)) (s, []) option CURL_FALSE =
        (CURLE_OK, s(option \<mapsto> ArgLong 0), [(option, ArgLong 0, CURLE_OK)]))"
proof -
  have "fst (curlHelperSetOptBool (curl_easy_setopt vd) s option yesNo) =
      vd s option (ArgLong (if yesNo = CURL_TRUE then 1 else 0))" for yesNo
    by (simp add: curlHelperSetOptBool_def fst_setopt)
  then show ?thesis
    by (simp add: SetOptBool_recording fst_setopt snd_setopt CURL_TRUE_def CURL_FALSE_def)
qed

theorem set_flag_true_false_witness:
  "curlHelperSetOptBool (recording (curl_easy_setopt accept_all)) (new_session, [])
       CURLOPT_HEADER CURL_TRUE =
     (CURLE_OK, new_session(CURLOPT_HEADER \<mapsto> ArgLong 1), [(CURLOPT_HEADER, ArgLong 1, CURLE_OK)])
   \<and> curlHelperSetOptBool (recording (curl_easy_setopt accept_all)) (new_session, [])
       CURLOPT_HEADER CURL_FALSE =
     (CURLE_OK, new_session(CURLOPT_HEADER \<mapsto> ArgLong 0), [(CURLOPT_HEADER, ArgLong 0, CURLE_OK)])"
proof -
  have ok: "fst (curlHelperSetOptBool (curl_easy_setopt accept_all) new_session CURLOPT_HEADER y)
      = CURLE_OK" for y
    by (simp add: curlHelperSetOptBool_def fst_setopt accept_all_def)
  from set_flag_true_false [of accept_all new_session CURLOPT_HEADER] ok
  show ?thesis by simp
qed

text \<open>
  C8. On the engine that stores its options, whatever values it accepts: a second call
  with the same option and input leaves the session as the first call left it.
\<close>

theorem set_flag_idempotent:
  "snd (curlHelperSetOptBool (curl_easy_setopt vd)
          (snd (curlHelperSetOptBool (curl_easy_setopt vd) s option yesNo)) option yesNo) =
   snd (curlHelperSetOptBool (curl_easy_setopt vd) s option yesNo)"
  by (simp add: curlHelperSetOptBool_def snd_setopt)

subsection \<open>set\_headers: curlHelperSetOptHeaders\<close>

text \<open>
  C5. On the engine that stores its options: after \<open>set_headers\<close> with a list \<open>H1\<close> and
  then \<open>set_headers\<close> with a list \<open>H2\<close>, both succeeding, the session's header option
  holds exactly \<open>H2\<close>, and the whole session is the one a single \<open>set_headers\<close> with
  \<open>H2\<close> gives: nothing of \<open>H1\<close> is left.
\<close>

theorem set_headers_replaces:
  assumes "curlHelperSetOptHeaders (curl_easy_setopt vd) s H1 = (CURLE_OK, s1)"
    and "curlHelperSetOptHeaders (curl_easy_setopt vd) s1 H2 = (CURLE_OK, s2)"
  shows "s2 CURLOPT_HTTPHEADER = Some (ArgSlist H2)
       \<and> s2 = s(CURLOPT_HTTPHEADER \<mapsto> ArgSlist H2)"
proof -
  from assms(1) have s1: "s1 = s(CURLOPT_HTTPHEADER \<mapsto> ArgSlist H1)"
    by (auto simp: curlHelperSetOptHeaders_def curl_easy_setopt_def Let_def split: if_splits)
  from assms(2) have s2: "s2 = s1(CURLOPT_HTTPHEADER \<mapsto> ArgSlist H2)"
    by (auto simp: curlHelperSetOptHeaders_def curl_easy_setopt_def Let_def split: if_splits)
  from s1 s2 show ?thesis by simp
qed

theorem set_headers_replaces_witness:
  "(new_session(CURLOPT_HTTPHEADER \<mapsto> ArgSlist [''Accept: text/html'']))
       CURLOPT_HTTPHEADER = Some (ArgSlist [''Accept: text/html''])
   \<and> snd (curlHelperSetOptHeaders (curl_easy_setopt accept_all)
        (snd (curlHelperSetOptHeaders (curl_easy_setopt accept_all) new_session
           [''Host: a'', ''X-Trace: 1'']))
        [''Accept: text/html'']) =
     new_session(CURLOPT_HTTPHEADER \<mapsto> ArgSlist [''Accept: text/html''])"
proof -
  have a: "curlHelperSetOptHeaders (curl_easy_setopt accept_all) new_session
      [''Host: a'', ''X-Trace: 1''] =
      (CURLE_OK, new_session(CURLOPT_HTTPHEADER \<mapsto> ArgSlist [''Host: a'', ''X-Trace: 1'']))"
    by (simp add: curlHelperSetOptHeaders_def curl_easy_setopt_def accept_all_def)
  have b: "curlHelperSetOptHeaders (curl_easy_setopt accept_all)
      (new_session(CURLOPT_HTTPHEADER \<mapsto> ArgSlist [''Host: a'', ''X-Trace: 1'']))
      [''Accept: text/html''] =
      (CURLE_OK, new_session(CURLOPT_HTTPHEADER \<mapsto> ArgSlist [''Accept: text/html'']))"
    by (simp add: curlHelperSetOptHeaders_def curl_easy_setopt_def accept_all_def)
  from set_headers_replaces [OF a b] a b show ?thesis by simp
qed

subsection \<open>set\_read\_callback: curlHelperSetOptReadFunc\<close>




text \<open>
  C7, as amended. With a null function reference the helper makes no check of its own.
  Whatever the engine answers (\<open>rc1\<close> names its answer to binding the context, \<open>rc2\<close> its
  answer to registering the null function): the first engine call binds the context; if
  the engine rejects that, it is the only call, and its code and state are the result;
  if the engine accepts it, the null function is passed to the engine as the second and
  last call, and the engine's code and state of that call are the result. So the code
  returned is a failure exactly when the engine rejects a call that is made, and nothing
  is rolled back: on the engine that stores its options, a rejected null function leaves
  the session with the new context bound and everything else as before.
\<close>

theorem set_read_callback_null:
  assumes "e h CURLOPT_READDATA (ArgPtr ud) = (rc1, h1)"
    and "e h1 CURLOPT_READFUNCTION (ArgFunc NULL) = (rc2, h2)"
  shows "(rc1 \<noteq> CURLE_OK \<longrightarrow>
            curlHelperSetOptReadFunc (recording e) (h, []) ud NULL =
              (rc1, h1, [(CURLOPT_READDATA, ArgPtr ud, rc1)]))
       \<and> (rc1 = CURLE_OK \<longrightarrow>
            curlHelperSetOptReadFunc (recording e) (h, []) ud NULL =
              (rc2, h2, [(CURLOPT_READDATA, ArgPtr ud, CURLE_OK),
                         (CURLOPT_READFUNCTION, ArgFunc NULL, rc2)]))
       \<and> (fst (curlHelperSetOptReadFunc e h ud NULL) \<noteq> CURLE_OK \<longleftrightarrow>
            rc1 \<noteq> CURLE_OK \<or> (rc1 = CURLE_OK \<and> rc2 \<noteq> CURLE_OK))
       \<and> (vd s CURLOPT_READDATA (ArgPtr ud) = CURLE_OK
            \<and> vd (s(CURLOPT_READDATA \<mapsto> ArgPtr ud)) CURLOPT_READFUNCTION (ArgFunc NULL)
                \<noteq> CURLE_OK \<longrightarrow>
            curlHelperSetOptReadFunc (curl_easy_setopt vd) s ud NULL =
              (vd (s(CURLOPT_READDATA \<mapsto> ArgPtr ud)) CURLOPT_READFUNCTION (ArgFunc NULL),
               s(CURLOPT_READDATA \<mapsto> ArgPtr ud)))"
proof -
  have log: "curlHelperSetOptReadFunc (recording e) (h, []) ud NULL =
      (if rc1 \<noteq> CURLE_OK then (rc1, h1, [(CURLOPT_READDATA, ArgPtr ud, rc1)])
       else (rc2, h2, [(CURLOPT_READDATA, ArgPtr ud, rc1),
                       (CURLOPT_READFUNCTION, ArgFunc NULL, rc2)]))"
    using assms by (rule SetOptReadFunc_recording)
  have code: "fst (curlHelperSetOptReadFunc e h ud NULL) =
      (if rc1 = CURLE_OK then rc2 else rc1)"
    using assms by (simp add: curlHelperSetOptReadFunc_def)
  have store: "vd s CURLOPT_READDATA (ArgPtr ud) = CURLE_OK
        \<and> vd (s(CURLOPT_READDATA \<mapsto> ArgPtr ud)) CURLOPT_READFUNCTION (ArgFunc NULL)
            \<noteq> CURLE_OK \<longrightarrow>
      curlHelperSetOptReadFunc (curl_easy_setopt vd) s ud NULL =
        (vd (s(CURLOPT_READDATA \<mapsto> ArgPtr ud)) CURLOPT_READFUNCTION (ArgFunc NULL),
         s(CURLOPT_READDATA \<mapsto> ArgPtr ud))"
    by (simp add: curlHelperSetOptReadFunc_def curl_easy_setopt_def)
  have c1: "rc1 \<noteq> CURLE_OK \<longrightarrow>
      curlHelperSetOptReadFunc (recording e) (h, []) ud NULL =
        (rc1, h1, [(CURLOPT_READDATA, ArgPtr ud, rc1)])"
    by (simp add: log)
  have c2: "rc1 = CURLE_OK \<longrightarrow>
      curlHelperSetOptReadFunc (recording e) (h, []) ud NULL =
        (rc2, h2, [(CURLOPT_READDATA, ArgPtr ud, CURLE_OK),
                   (CURLOPT_READFUNCTION, ArgFunc NULL, rc2)])"
    by (simp add: log)
  have c3: "fst (curlHelperSetOptReadFunc e h ud NULL) \<noteq> CURLE_OK \<longleftrightarrow>
      rc1 \<noteq> CURLE_OK \<or> (rc1 = CURLE_OK \<and> rc2 \<noteq> CURLE_OK)"
    by (auto simp: code)
  from c1 c2 c3 store show ?thesis by (intro conjI)
qed

text \<open>The witness runs the three cases: the engine rejects the null function, the
  engine rejects the context, and (on the option store) the session after a rejected
  null function.\<close>

theorem set_read_callback_null_witness:
  "curlHelperSetOptReadFunc (recording (curl_easy_setopt (reject_args [ArgFunc NULL])))
       (new_session, []) 7 NULL =
     (CURLE_failed 43, new_session(CURLOPT_READDATA \<mapsto> ArgPtr 7),
      [(CURLOPT_READDATA, ArgPtr 7, CURLE_OK),
       (CURLOPT_READFUNCTION, ArgFunc NULL, CURLE_failed 43)])
   \<and> curlHelperSetOptReadFunc (recording (curl_easy_setopt (reject_options [CURLOPT_READDATA])))
       (new_session, []) 7 NULL =
     (CURLE_failed 48, new_session, [(CURLOPT_READDATA, ArgPtr 7, CURLE_failed 48)])
   \<and> curlHelperSetOptReadFunc (curl_easy_setopt (reject_args [ArgFunc NULL]))
       (new_session(CURLOPT_READFUNCTION \<mapsto> ArgFunc 4096)) 7 NULL =
     (CURLE_failed 43,
      new_session(CURLOPT_READFUNCTION \<mapsto> ArgFunc 4096, CURLOPT_READDATA \<mapsto> ArgPtr 7))"
proof (intro conjI)
  let ?e = "curl_easy_setopt (reject_args [ArgFunc NULL])"
  have a: "?e new_session CURLOPT_READDATA (ArgPtr 7) =
      (CURLE_OK, new_session(CURLOPT_READDATA \<mapsto> ArgPtr 7))"
    by (simp add: curl_easy_setopt_def reject_args_def)
  have b: "?e (new_session(CURLOPT_READDATA \<mapsto> ArgPtr 7)) CURLOPT_READFUNCTION (ArgFunc NULL) =
      (CURLE_failed 43, new_session(CURLOPT_READDATA \<mapsto> ArgPtr 7))"
    by (simp add: curl_easy_setopt_def reject_args_def)
  from set_read_callback_null
    [of ?e new_session 7 CURLE_OK "new_session(CURLOPT_READDATA \<mapsto> ArgPtr 7)"
        "CURLE_failed 43" "new_session(CURLOPT_READDATA \<mapsto> ArgPtr 7)",
     OF a b, THEN conjunct2, THEN conjunct1]
  show "curlHelperSetOptReadFunc (recording ?e) (new_session, []) 7 NULL =
      (CURLE_failed 43, new_session(CURLOPT_READDATA \<mapsto> ArgPtr 7),
       [(CURLOPT_READDATA, ArgPtr 7, CURLE_OK),
        (CURLOPT_READFUNCTION, ArgFunc NULL, CURLE_failed 43)])"
    by (rule mp) simp
next
  let ?e = "curl_easy_setopt (reject_options [CURLOPT_READDATA])"
  have a: "?e new_session CURLOPT_READDATA (ArgPtr 7) = (CURLE_failed 48, new_session)"
    by (simp add: curl_easy_setopt_def reject_options_def)
  have b: "?e new_session CURLOPT_READFUNCTION (ArgFunc NULL) =
      (CURLE_OK, new_session(CURLOPT_READFUNCTION \<mapsto> ArgFunc NULL))"
    by (simp add: curl_easy_setopt_def reject_options_def)
  from set_read_callback_null
    [of ?e new_session 7 "CURLE_failed 48" new_session
        CURLE_OK "new_session(CURLOPT_READFUNCTION \<mapsto> ArgFunc NULL)",
     OF a b, THEN conjunct1]
  show "curlHelperSetOptReadFunc (recording ?e) (new_session, []) 7 NULL =
      (CURLE_failed 48, new_session, [(CURLOPT_READDATA, ArgPtr 7, CURLE_failed 48)])"
    by (rule mp) simp
next
  let ?e = "curl_easy_setopt (reject_args [ArgFunc NULL])"
  let ?s = "new_session(CURLOPT_READFUNCTION \<mapsto> ArgFunc 4096)"
  have a: "?e ?s CURLOPT_READDATA (ArgPtr 7) = (CURLE_OK, ?s(CURLOPT_READDATA \<mapsto> ArgPtr 7))"
    by (simp add: curl_easy_setopt_def reject_args_def)
  have b: "?e (?s(CURLOPT_READDATA \<mapsto> ArgPtr 7)) CURLOPT_READFUNCTION (ArgFunc NULL) =
      (CURLE_failed 43, ?s(CURLOPT_READDATA \<mapsto> ArgPtr 7))"
    by (simp add: curl_easy_setopt_def reject_args_def)
  have v: "reject_args [ArgFunc NULL] (?s(CURLOPT_READDATA \<mapsto> ArgPtr 7))
      CURLOPT_READFUNCTION (ArgFunc NULL) = CURLE_failed 43"
    by (simp add: reject_args_def)
  have pre: "reject_args [ArgFunc NULL] ?s CURLOPT_READDATA (ArgPtr 7) = CURLE_OK
      \<and> reject_args [ArgFunc NULL] (?s(CURLOPT_READDATA \<mapsto> ArgPtr 7))
          CURLOPT_READFUNCTION (ArgFunc NULL) \<noteq> CURLE_OK"
    by (simp add: reject_args_def)
  from set_read_callback_null
    [of ?e ?s 7 CURLE_OK "?s(CURLOPT_READDATA \<mapsto> ArgPtr 7)"
        "CURLE_failed 43" "?s(CURLOPT_READDATA \<mapsto> ArgPtr 7)"
        "reject_args [ArgFunc NULL]" ?s,
     OF a b, THEN conjunct2, THEN conjunct2, THEN conjunct2, THEN mp, OF pre]
  show "curlHelperSetOptReadFunc ?e ?s 7 NULL =
      (CURLE_failed 43, ?s(CURLOPT_READDATA \<mapsto> ArgPtr 7))"
    unfolding v .
qed

text \<open>
  C7 as stated fails: an engine that accepts a null read function (as the accepting
  engine does) makes the helper return success, with the context bound and the null
  function registered.
\<close>

theorem set_read_callback_null_succeeds:
  "curlHelperSetOptReadFunc (recording (curl_easy_setopt accept_all)) (new_session, []) 7 NULL =
     (CURLE_OK,
      new_session(CURLOPT_READDATA \<mapsto> ArgPtr 7, CURLOPT_READFUNCTION \<mapsto> ArgFunc NULL),
      [(CURLOPT_READDATA, ArgPtr 7, CURLE_OK), (CURLOPT_READFUNCTION, ArgFunc NULL, CURLE_OK)])"
proof -
  have a: "curl_easy_setopt accept_all new_session CURLOPT_READDATA (ArgPtr 7) =
      (CURLE_OK, new_session(CURLOPT_READDATA \<mapsto> ArgPtr 7))"
    by (simp add: setopt_accepted accept_all_def)
  have b: "curl_easy_setopt accept_all (new_session(CURLOPT_READDATA \<mapsto> ArgPtr 7))
      CURLOPT_READFUNCTION (ArgFunc NULL) =
      (CURLE_OK,
       new_session(CURLOPT_READDATA \<mapsto> ArgPtr 7, CURLOPT_READFUNCTION \<mapsto> ArgFunc NULL))"
    by (simp add: setopt_accepted accept_all_def)
  from SetOptReadFunc_recording [OF a b] show ?thesis by simp
qed

subsection \<open>set\_write\_callback: curlHelperSetOptWriteFunc\<close>

text \<open>
  C2. Whatever the engine answers (\<open>rc1\<close>, \<open>rc2\<close>, \<open>rc3\<close> name its answers to the three
  calls), the helper calls it in the order header-inclusion (with the value 1), context,
  function, and stops at the first answer that is not \<^verbatim>\<open>CURLE_OK\<close>: the calls after it
  are not made, the code returned is that answer, and the state is the one the engine
  left at that call. No call is made twice.
\<close>

theorem set_write_callback_order:
  assumes "e h CURLOPT_HEADER (ArgInt 1) = (rc1, h1)"
    and "e h1 CURLOPT_WRITEDATA (ArgPtr ud) = (rc2, h2)"
    and "e h2 CURLOPT_WRITEFUNCTION (ArgFunc cb) = (rc3, h3)"
  shows "(rc1 \<noteq> CURLE_OK \<longrightarrow>
            curlHelperSetOptWriteFunc (recording e) (h, []) ud cb =
              (rc1, h1, [(CURLOPT_HEADER, ArgInt 1, rc1)]))
       \<and> (rc1 = CURLE_OK \<and> rc2 \<noteq> CURLE_OK \<longrightarrow>
            curlHelperSetOptWriteFunc (recording e) (h, []) ud cb =
              (rc2, h2, [(CURLOPT_HEADER, ArgInt 1, CURLE_OK),
                         (CURLOPT_WRITEDATA, ArgPtr ud, rc2)]))
       \<and> (rc1 = CURLE_OK \<and> rc2 = CURLE_OK \<longrightarrow>
            curlHelperSetOptWriteFunc (recording e) (h, []) ud cb =
              (rc3, h3, [(CURLOPT_HEADER, ArgInt 1, CURLE_OK),
                         (CURLOPT_WRITEDATA, ArgPtr ud, CURLE_OK),
                         (CURLOPT_WRITEFUNCTION, ArgFunc cb, rc3)]))
       \<and> fst (curlHelperSetOptWriteFunc e h ud cb) =
            (if rc1 \<noteq> CURLE_OK then rc1 else if rc2 \<noteq> CURLE_OK then rc2 else rc3)"
proof -
  have "fst (curlHelperSetOptWriteFunc e h ud cb) =
      (if rc1 \<noteq> CURLE_OK then rc1 else if rc2 \<noteq> CURLE_OK then rc2 else rc3)"
    using assms by (simp add: curlHelperSetOptWriteFunc_def)
  then show ?thesis
    by (simp add: SetOptWriteFunc_recording [OF assms])
qed

theorem set_write_callback_order_witness:
  "curlHelperSetOptWriteFunc (recording (curl_easy_setopt (reject_options [CURLOPT_HEADER])))
       (new_session, []) 7 8192 =
     (CURLE_failed 48, new_session, [(CURLOPT_HEADER, ArgInt 1, CURLE_failed 48)])
   \<and> curlHelperSetOptWriteFunc (recording (curl_easy_setopt (reject_options [CURLOPT_WRITEDATA])))
       (new_session, []) 7 8192 =
     (CURLE_failed 48, new_session(CURLOPT_HEADER \<mapsto> ArgInt 1),
      [(CURLOPT_HEADER, ArgInt 1, CURLE_OK), (CURLOPT_WRITEDATA, ArgPtr 7, CURLE_failed 48)])
   \<and> curlHelperSetOptWriteFunc (recording (curl_easy_setopt accept_all))
       (new_session, []) 7 8192 =
     (CURLE_OK,
      new_session(CURLOPT_HEADER \<mapsto> ArgInt 1, CURLOPT_WRITEDATA \<mapsto> ArgPtr 7,
        CURLOPT_WRITEFUNCTION \<mapsto> ArgFunc 8192),
      [(CURLOPT_HEADER, ArgInt 1, CURLE_OK), (CURLOPT_WRITEDATA, ArgPtr 7, CURLE_OK),
       (CURLOPT_WRITEFUNCTION, ArgFunc 8192, CURLE_OK)])"
proof (intro conjI)
  let ?e = "curl_easy_setopt (reject_options [CURLOPT_HEADER])"
  have a: "?e new_session CURLOPT_HEADER (ArgInt 1) = (CURLE_failed 48, new_session)"
    by (simp add: curl_easy_setopt_def reject_options_def)
  have b: "?e new_session CURLOPT_WRITEDATA (ArgPtr 7) =
      (CURLE_OK, new_session(CURLOPT_WRITEDATA \<mapsto> ArgPtr 7))"
    by (simp add: curl_easy_setopt_def reject_options_def)
  have c: "?e (new_session(CURLOPT_WRITEDATA \<mapsto> ArgPtr 7)) CURLOPT_WRITEFUNCTION (ArgFunc 8192) =
      (CURLE_OK, new_session(CURLOPT_WRITEDATA \<mapsto> ArgPtr 7,
         CURLOPT_WRITEFUNCTION \<mapsto> ArgFunc 8192))"
    by (simp add: curl_easy_setopt_def reject_options_def)
  from set_write_callback_order [OF a b c, THEN conjunct1]
  show "curlHelperSetOptWriteFunc (recording ?e) (new_session, []) 7 8192 =
      (CURLE_failed 48, new_session, [(CURLOPT_HEADER, ArgInt 1, CURLE_failed 48)])"
    by (rule mp) simp
next
  let ?e = "curl_easy_setopt (reject_options [CURLOPT_WRITEDATA])"
  have a: "?e new_session CURLOPT_HEADER (ArgInt 1) =
      (CURLE_OK, new_session(CURLOPT_HEADER \<mapsto> ArgInt 1))"
    by (simp add: curl_easy_setopt_def reject_options_def)
  have b: "?e (new_session(CURLOPT_HEADER \<mapsto> ArgInt 1)) CURLOPT_WRITEDATA (ArgPtr 7) =
      (CURLE_failed 48, new_session(CURLOPT_HEADER \<mapsto> ArgInt 1))"
    by (simp add: curl_easy_setopt_def reject_options_def)
  have c: "?e (new_session(CURLOPT_HEADER \<mapsto> ArgInt 1)) CURLOPT_WRITEFUNCTION (ArgFunc 8192) =
      (CURLE_OK, new_session(CURLOPT_HEADER \<mapsto> ArgInt 1,
         CURLOPT_WRITEFUNCTION \<mapsto> ArgFunc 8192))"
    by (simp add: curl_easy_setopt_def reject_options_def)
  from set_write_callback_order [OF a b c, THEN conjunct2, THEN conjunct1]
  show "curlHelperSetOptWriteFunc (recording ?e) (new_session, []) 7 8192 =
      (CURLE_failed 48, new_session(CURLOPT_HEADER \<mapsto> ArgInt 1),
       [(CURLOPT_HEADER, ArgInt 1, CURLE_OK), (CURLOPT_WRITEDATA, ArgPtr 7, CURLE_failed 48)])"
    by (rule mp) simp
next
  let ?e = "curl_easy_setopt accept_all"
  have a: "?e new_session CURLOPT_HEADER (ArgInt 1) =
      (CURLE_OK, new_session(CURLOPT_HEADER \<mapsto> ArgInt 1))"
    by (simp add: curl_easy_setopt_def accept_all_def)
  have b: "?e (new_session(CURLOPT_HEADER \<mapsto> ArgInt 1)) CURLOPT_WRITEDATA (ArgPtr 7) =
      (CURLE_OK, new_session(CURLOPT_HEADER \<mapsto> ArgInt 1, CURLOPT_WRITEDATA \<mapsto> ArgPtr 7))"
    by (simp add: curl_easy_setopt_def accept_all_def)
  have c: "?e (new_session(CURLOPT_HEADER \<mapsto> ArgInt 1, CURLOPT_WRITEDATA \<mapsto> ArgPtr 7))
      CURLOPT_WRITEFUNCTION (ArgFunc 8192) =
      (CURLE_OK, new_session(CURLOPT_HEADER \<mapsto> ArgInt 1, CURLOPT_WRITEDATA \<mapsto> ArgPtr 7,
         CURLOPT_WRITEFUNCTION \<mapsto> ArgFunc 8192))"
    by (simp add: curl_easy_setopt_def accept_all_def)
  from set_write_callback_order [OF a b c, THEN conjunct2, THEN conjunct2, THEN conjunct1]
  show "curlHelperSetOptWriteFunc (recording ?e) (new_session, []) 7 8192 =
      (CURLE_OK,
       new_session(CURLOPT_HEADER \<mapsto> ArgInt 1, CURLOPT_WRITEDATA \<mapsto> ArgPtr 7,
         CURLOPT_WRITEFUNCTION \<mapsto> ArgFunc 8192),
       [(CURLOPT_HEADER, ArgInt 1, CURLE_OK), (CURLOPT_WRITEDATA, ArgPtr 7, CURLE_OK),
        (CURLOPT_WRITEFUNCTION, ArgFunc 8192, CURLE_OK)])"
    by (rule mp) simp
qed

text \<open>
  C4. On the engine that stores its options: whenever the helper returns success, the
  session's header-inclusion option holds 1 afterwards, for every context and callback
  (the helper has no argument that would leave it out).
\<close>

theorem set_write_callback_enables_header:
  assumes "fst (curlHelperSetOptWriteFunc (curl_easy_setopt vd) s ud cb) = CURLE_OK"
  shows "snd (curlHelperSetOptWriteFunc (curl_easy_setopt vd) s ud cb) CURLOPT_HEADER =
           Some (ArgInt 1)"
proof (cases "vd s CURLOPT_HEADER (ArgInt 1) = CURLE_OK")
  case False
  then have "fst (curlHelperSetOptWriteFunc (curl_easy_setopt vd) s ud cb) \<noteq> CURLE_OK"
    by (simp add: curlHelperSetOptWriteFunc_def setopt_rejected)
  with assms show ?thesis by simp
next
  case True
  let ?s1 = "s(CURLOPT_HEADER \<mapsto> ArgInt 1)"
  have r: "curlHelperSetOptWriteFunc (curl_easy_setopt vd) s ud cb =
      (case curl_easy_setopt vd ?s1 CURLOPT_WRITEDATA (ArgPtr ud) of
         (rc, curl2) \<Rightarrow>
           if rc = CURLE_OK
           then curl_easy_setopt vd curl2 CURLOPT_WRITEFUNCTION (ArgFunc cb)
           else (rc, curl2))"
    using True by (simp add: curlHelperSetOptWriteFunc_def curl_easy_setopt_def)
  show ?thesis
    unfolding r
    by (simp add: curl_easy_setopt_def Let_def)
qed

theorem set_write_callback_enables_header_witness:
  "fst (curlHelperSetOptWriteFunc (curl_easy_setopt accept_all) new_session 7 8192) = CURLE_OK
   \<and> snd (curlHelperSetOptWriteFunc (curl_easy_setopt accept_all) new_session 7 8192)
        CURLOPT_HEADER = Some (ArgInt 1)"
proof -
  have ok: "fst (curlHelperSetOptWriteFunc (curl_easy_setopt accept_all) new_session 7 8192) =
      CURLE_OK"
    by (simp add: curlHelperSetOptWriteFunc_def curl_easy_setopt_def accept_all_def)
  from set_write_callback_enables_header [OF ok] ok show ?thesis by simp
qed

text \<open>
  C10. On the engine that stores its options: when the engine rejects the first step
  (header-inclusion), the helper returns that code after this one engine call; the write
  context and the write function of the session, and every other option, are as before.
\<close>

theorem set_write_callback_first_step_fails:
  assumes "vd s CURLOPT_HEADER (ArgInt 1) \<noteq> CURLE_OK"
  shows "curlHelperSetOptWriteFunc (recording (curl_easy_setopt vd)) (s, []) ud cb =
           (vd s CURLOPT_HEADER (ArgInt 1), s,
            [(CURLOPT_HEADER, ArgInt 1, vd s CURLOPT_HEADER (ArgInt 1))])
       \<and> snd (curlHelperSetOptWriteFunc (curl_easy_setopt vd) s ud cb) CURLOPT_WRITEDATA =
           s CURLOPT_WRITEDATA
       \<and> snd (curlHelperSetOptWriteFunc (curl_easy_setopt vd) s ud cb) CURLOPT_WRITEFUNCTION =
           s CURLOPT_WRITEFUNCTION
       \<and> snd (curlHelperSetOptWriteFunc (curl_easy_setopt vd) s ud cb) = s"
proof -
  have a: "curl_easy_setopt vd s CURLOPT_HEADER (ArgInt 1) = (vd s CURLOPT_HEADER (ArgInt 1), s)"
    using assms by (rule setopt_rejected)
  have "curlHelperSetOptWriteFunc (recording (curl_easy_setopt vd)) (s, []) ud cb =
      (vd s CURLOPT_HEADER (ArgInt 1), s,
       [(CURLOPT_HEADER, ArgInt 1, vd s CURLOPT_HEADER (ArgInt 1))])"
    using assms by (simp add: curlHelperSetOptWriteFunc_def recording_def a)
  moreover have "snd (curlHelperSetOptWriteFunc (curl_easy_setopt vd) s ud cb) = s"
    using assms by (simp add: curlHelperSetOptWriteFunc_def a)
  ultimately show ?thesis by simp
qed

theorem set_write_callback_first_step_fails_witness:
  "curlHelperSetOptWriteFunc (recording (curl_easy_setopt (reject_options [CURLOPT_HEADER])))
       (new_session(CURLOPT_WRITEDATA \<mapsto> ArgPtr 3, CURLOPT_WRITEFUNCTION \<mapsto> ArgFunc 4096), [])
       7 8192 =
     (CURLE_failed 48,
      new_session(CURLOPT_WRITEDATA \<mapsto> ArgPtr 3, CURLOPT_WRITEFUNCTION \<mapsto> ArgFunc 4096),
      [(CURLOPT_HEADER, ArgInt 1, CURLE_failed 48)])"
proof -
  have a: "reject_options [CURLOPT_HEADER]
      (new_session(CURLOPT_WRITEDATA \<mapsto> ArgPtr 3, CURLOPT_WRITEFUNCTION \<mapsto> ArgFunc 4096))
      CURLOPT_HEADER (ArgInt 1) = CURLE_failed 48"
    by (simp add: reject_options_def)
  have b: "reject_options [CURLOPT_HEADER]
      (new_session(CURLOPT_WRITEDATA \<mapsto> ArgPtr 3, CURLOPT_WRITEFUNCTION \<mapsto> ArgFunc 4096))
      CURLOPT_HEADER (ArgInt 1) \<noteq> CURLE_OK"
    by (simp add: reject_options_def)
  from set_write_callback_first_step_fails
    [of "reject_options [CURLOPT_HEADER]"
        "new_session(CURLOPT_WRITEDATA \<mapsto> ArgPtr 3, CURLOPT_WRITEFUNCTION \<mapsto> ArgFunc 4096)"
        7 8192, OF b, THEN conjunct1]
  show ?thesis unfolding a .
qed

end
